theory Spec2Isabelle
  imports Main "HOL-Library.AList"
begin

section \<open>Re-export discovery: the script \<open>scripts/check_import_mappings.py\<close>\<close>

text \<open>
  The script installs two packages, finds the public \<open>__init__.py\<close> files of the
  downstream package, parses each with Python's \<open>ast\<close> module, collects the names
  imported from \<open>langchain_core\<close> and the names listed in \<open>__all__\<close>, intersects them
  and dumps the result as JSON. The embedding below follows the script function by
  function. What the script obtains from its environment (the output of pip, the
  directory listing, the outcome of reading and parsing a file) is an input of the model.
\<close>

subsection \<open>Strings and paths\<close>

text \<open>\<open>str.startswith\<close>: the argument is a prefix of the string.\<close>

definition startswith :: "string \<Rightarrow> string \<Rightarrow> bool" where
  "startswith s p = (take (length p) s = p)"

text \<open>
  A \<open>pathlib.Path\<close> is the list of its parts; the first part of an absolute path is the
  root \<open>/\<close>. \<open>relative_to\<close> is only applied to a path found below its argument, where
  it strips the argument's parts. \<open>str\<close> joins the parts with the separator.
\<close>

type_synonym path = "string list"

definition relative_to :: "path \<Rightarrow> path \<Rightarrow> path" where
  "relative_to p base = drop (length base) p"

fun str_path :: "path \<Rightarrow> string" where
  "str_path [] = ''.''"
| "str_path [p] = p"
| "str_path (p # q # ps) =
     (if p = ''/'' then p @ str_path (q # ps) else p @ ''/'' @ str_path (q # ps))"

subsection \<open>The syntax tree, as far as the visitor reads it\<close>

text \<open>
  The value of an \<open>ast.Constant\<close> node is any Python literal: a string, bytes, a number,
  a boolean, \<open>None\<close> or \<open>...\<close>. Floats and complex numbers are kept as their source text.
\<close>

datatype const_value =
    CStr string
  | CBytes string
  | CInt int
  | CFloat string
  | CComplex string
  | CBool bool
  | CNone
  | CEllipsis

text \<open>\<open>ast.alias\<close>: \<open>name\<close> and the optional \<open>asname\<close>.\<close>

datatype alias_node = Alias (name: string) (asname: "string option")

text \<open>
  Expressions: the visitor tells \<open>ast.Name\<close>, \<open>ast.List\<close> and \<open>ast.Constant\<close> apart from
  everything else.
\<close>

datatype expr =
    Name string
  | ListE "expr list"
  | Constant const_value
  | OtherExpr

text \<open>
  Nodes: \<open>ImportFrom module names level\<close>, \<open>Assign targets value\<close>, and \<open>Node children\<close>
  for every other node (the module itself, \<open>if\<close>, \<open>try\<close>, \<open>def\<close>, \<open>class\<close>, an expression
  statement, ...) with its child nodes in field order, which for statements is source
  order.
\<close>

datatype node =
    ImportFrom "string option" "alias_node list" nat
  | Assign "expr list" expr
  | Node "node list"

subsection \<open>\<open>ImportVisitor\<close>\<close>

record import_mapping =
  module :: string
  original_name :: string

text \<open>
  A Python \<open>dict\<close> keeps insertion order, and assigning to a key that is present
  replaces the value in place: this is \<open>AList.update\<close> on an association list.
\<close>

type_synonym import_dict = "(string \<times> import_mapping) list"

text \<open>\<open>alias.asname if alias.asname else alias.name\<close>: \<open>None\<close> and \<open>""\<close> are falsy.\<close>

definition local_name :: "alias_node \<Rightarrow> string" where
  "local_name al =
     (case asname al of
        None \<Rightarrow> name al
      | Some a \<Rightarrow> if a \<noteq> [] then a else name al)"

text \<open>The body of the loop over \<open>node.names\<close>.\<close>

definition store_import :: "string \<Rightarrow> alias_node \<Rightarrow> import_dict \<Rightarrow> import_dict" where
  "store_import m al langchain_core_imports =
     AList.update (local_name al) \<lparr>module = m, original_name = name al\<rparr>
       langchain_core_imports"

text \<open>\<open>node.module and node.module.startswith("langchain_core")\<close>.\<close>

definition visit_ImportFrom ::
  "string option \<Rightarrow> alias_node list \<Rightarrow> import_dict \<Rightarrow> import_dict" where
  "visit_ImportFrom node_module names langchain_core_imports =
     (case node_module of
        None \<Rightarrow> langchain_core_imports
      | Some m \<Rightarrow>
          if m \<noteq> [] \<and> startswith m ''langchain_core''
          then fold (store_import m) names langchain_core_imports
          else langchain_core_imports)"

text \<open>The generator \<open>elt.value for elt in node.value.elts if isinstance(elt, ast.Constant)\<close>.\<close>

fun constant_values :: "expr list \<Rightarrow> const_value list" where
  "constant_values [] = []"
| "constant_values (Constant c # elts) = c # constant_values elts"
| "constant_values (_ # elts) = constant_values elts"

text \<open>The body of the loop over \<open>node.targets\<close>.\<close>

fun extend_exports :: "expr \<Rightarrow> expr \<Rightarrow> const_value list \<Rightarrow> const_value list" where
  "extend_exports (ListE elts) (Name ident) all_exports =
     (if ident = ''__all__'' then all_exports @ constant_values elts else all_exports)"
| "extend_exports _ _ all_exports = all_exports"

definition visit_Assign :: "expr list \<Rightarrow> expr \<Rightarrow> const_value list \<Rightarrow> const_value list" where
  "visit_Assign targets val all_exports = fold (extend_exports val) targets all_exports"

text \<open>
  \<open>NodeVisitor.visit\<close>: the two overridden methods do not descend further; every other
  node is handled by \<open>generic_visit\<close>, which visits the children in order. The state is
  the pair of the two closure variables.
\<close>

fun visit :: "node \<Rightarrow> import_dict \<times> const_value list \<Rightarrow> import_dict \<times> const_value list" where
  "visit (ImportFrom node_module names level) st =
     (visit_ImportFrom node_module names (fst st), snd st)"
| "visit (Assign targets val) st = (fst st, visit_Assign targets val (snd st))"
| "visit (Node children) st = fold visit children st"

subsection \<open>\<open>analyze_init_file\<close>\<close>

text \<open>
  Python exceptions, by class, each with its message \<open>str(e)\<close>. A class stands for its
  subclasses too (\<open>IsADirectoryError\<close> is an \<open>OSError\<close>, \<open>UnicodeDecodeError\<close> a
  \<open>ValueError\<close>, \<open>IndentationError\<close> a \<open>SyntaxError\<close>).
\<close>

datatype exception =
    OSError string
  | SyntaxError string
  | ValueError string
  | RecursionError string
  | MemoryError string
  | TypeError string
  | Exception string

fun str_exception :: "exception \<Rightarrow> string" where
  "str_exception (OSError msg) = msg"
| "str_exception (SyntaxError msg) = msg"
| "str_exception (ValueError msg) = msg"
| "str_exception (RecursionError msg) = msg"
| "str_exception (MemoryError msg) = msg"
| "str_exception (TypeError msg) = msg"
| "str_exception (Exception msg) = msg"

text \<open>The handler: \<open>except (OSError, SyntaxError, ValueError)\<close>.\<close>

fun caught :: "exception \<Rightarrow> bool" where
  "caught (OSError _) = True"
| "caught (SyntaxError _) = True"
| "caught (ValueError _) = True"
| "caught _ = False"

text \<open>
  What the script meets on the machine it runs on: whether a path exists, what
  \<open>rglob("__init__.py")\<close> yields below a directory, what \<open>open\<close>, \<open>read\<close> and \<open>ast.parse\<close>
  give for a file (the tree, or the exception raised: the file cannot be read or
  decoded, the source has a syntax error, or the parser runs out of stack or memory, with
  \<open>RecursionError\<close> or \<open>MemoryError\<close>), and whether walking a tree with \<open>NodeVisitor\<close>
  exceeds the interpreter's recursion limit.
\<close>

record filesystem =
  path_exists :: "path \<Rightarrow> bool"
  rglob_init :: "path \<Rightarrow> path list"
  load :: "path \<Rightarrow> exception + node"
  walk_overflows :: "node \<Rightarrow> bool"

record analysis =
  file_name :: string
  error :: "string option"
  langchain_core_imports :: import_dict
  all_exports :: "const_value list"
  exported_from_core :: import_dict

text \<open>
  \<open>export in langchain_core_imports\<close>: the keys are strings, and no other constant is
  equal to a string.
\<close>

fun lookup_export :: "import_dict \<Rightarrow> const_value \<Rightarrow> (string \<times> import_mapping) option" where
  "lookup_export imps (CStr s) = map_option (Pair s) (map_of imps s)"
| "lookup_export imps _ = None"

text \<open>The body of the loop over \<open>all_exports\<close>.\<close>

definition add_export :: "import_dict \<Rightarrow> const_value \<Rightarrow> import_dict \<Rightarrow> import_dict" where
  "add_export imps export exported =
     (case lookup_export imps export of
        None \<Rightarrow> exported
      | Some (k, v) \<Rightarrow> AList.update k v exported)"

text \<open>
  The function returns a dictionary, or an exception leaves it: one that the handler
  does not name, raised while the file is loaded or while the tree is walked.
\<close>

definition analyze_init_file :: "filesystem \<Rightarrow> path \<Rightarrow> exception + analysis" where
  "analyze_init_file fs init_file =
     (case load fs init_file of
        Inr tree \<Rightarrow>
          if walk_overflows fs tree
          then Inl (RecursionError ''maximum recursion depth exceeded'')
          else
            (let st = visit tree ([], [])
             in Inr \<lparr>file_name = str_path init_file,
                     error = None,
                     langchain_core_imports = fst st,
                     all_exports = snd st,
                     exported_from_core = fold (add_export (fst st)) (snd st) []\<rparr>)
      | Inl e \<Rightarrow>
          if caught e
          then Inr \<lparr>file_name = str_path init_file,
                    error = Some (str_exception e),
                    langchain_core_imports = [],
                    all_exports = [],
                    exported_from_core = []\<rparr>
          else Inl e)"

subsection \<open>\<open>find_init_files\<close>\<close>

text \<open>\<open>any(part.startswith("_") and part != "__init__.py" for part in parts)\<close>.\<close>

definition is_private :: "path \<Rightarrow> bool" where
  "is_private parts =
     list_ex (\<lambda>part. startswith part ''_'' \<and> part \<noteq> ''__init__.py'') parts"

definition find_init_files :: "filesystem \<Rightarrow> path \<Rightarrow> path list" where
  "find_init_files fs package_path =
     (let langchain_dir = package_path @ [''langchain'']
      in if \<not> path_exists fs langchain_dir then []
         else filter
                (\<lambda>init_file. \<not> is_private (butlast (relative_to init_file langchain_dir)))
                (rglob_init fs langchain_dir))"

subsection \<open>\<open>main\<close>\<close>

record metadata =
  langchain_version :: string
  langchain_core_version :: string
  total_init_files :: nat

record summary =
  total_langchain_core_reexports :: nat
  modules_with_core_reexports :: nat

record results =
  metadata :: metadata
  analyses :: "analysis list"
  summary :: summary

text \<open>
  The environment of one run: what \<open>get_latest_version\<close> returned for the two packages,
  the temporary directory, the return code and error output of pip, and the machine
  after the installation. Creating the temporary directory, starting pip and opening the
  output file for writing are taken to succeed.
\<close>

record environment =
  latest_langchain :: string
  latest_langchain_core :: string
  temp_path :: path
  pip_returncode :: int
  pip_stderr :: string
  files :: filesystem

text \<open>\<open>install_packages\<close> raises when pip fails.\<close>

definition install_packages :: "environment \<Rightarrow> exception + unit" where
  "install_packages env =
     (if pip_returncode env \<noteq> 0
      then Inl (Exception (''Failed to install packages: '' @ pip_stderr env))
      else Inr ())"

text \<open>
  The loop \<open>for init_file in init_files\<close>: the analyses are appended in order, and an
  exception that leaves \<open>analyze_init_file\<close> ends the loop and the run.
\<close>

fun analyze_all :: "filesystem \<Rightarrow> path list \<Rightarrow> exception + analysis list" where
  "analyze_all fs [] = Inr []"
| "analyze_all fs (init_file # init_files) =
     (case analyze_init_file fs init_file of
        Inl e \<Rightarrow> Inl e
      | Inr a \<Rightarrow>
          (case analyze_all fs init_files of
             Inl e \<Rightarrow> Inl e
           | Inr as \<Rightarrow> Inr (a # as)))"

text \<open>The loop that counts: \<open>analysis.get("exported_from_core")\<close> is true of a non-empty dict.\<close>

definition count_reexports :: "analysis \<Rightarrow> nat \<times> nat \<Rightarrow> nat \<times> nat" where
  "count_reexports a acc =
     (if exported_from_core a \<noteq> []
      then (fst acc + length (exported_from_core a), snd acc + 1)
      else acc)"

text \<open>The \<open>results\<close> dictionary as it stands when it is handed to \<open>json.dump\<close>.\<close>

definition build_results :: "environment \<Rightarrow> exception + results" where
  "build_results env =
     (let init_files = find_init_files (files env) (temp_path env)
      in case analyze_all (files env) init_files of
           Inl e \<Rightarrow> Inl e
         | Inr analysis_list \<Rightarrow>
             (let totals = fold count_reexports analysis_list (0, 0)
              in Inr \<lparr>metadata = \<lparr>langchain_version = latest_langchain env,
                                  langchain_core_version = latest_langchain_core env,
                                  total_init_files = length init_files\<rparr>,
                      analyses = analysis_list,
                      summary = \<lparr>total_langchain_core_reexports = fst totals,
                                 modules_with_core_reexports = snd totals\<rparr>\<rparr>))"

text \<open>
  \<open>json.dump\<close> writes strings, numbers, booleans and \<open>None\<close>. It raises \<open>TypeError\<close> on
  any other object, and \<open>ValueError\<close> on an integer of more than 4300 decimal digits
  (the interpreter's limit for converting an integer to a string). Everything in
  \<open>results\<close> is a string, a small number, a list or a dict with string keys, except the
  elements of \<open>all_exports\<close>, which are whatever constants the visitor collected; the
  first of them that cannot be written raises.
\<close>

definition int_max_str_digits :: nat where
  "int_max_str_digits = 4300"

fun json_error :: "const_value \<Rightarrow> exception option" where
  "json_error (CBytes _) = Some (TypeError ''Object of type bytes is not JSON serializable'')"
| "json_error (CComplex _) =
     Some (TypeError ''Object of type complex is not JSON serializable'')"
| "json_error CEllipsis =
     Some (TypeError ''Object of type ellipsis is not JSON serializable'')"
| "json_error (CInt n) =
     (if 10 ^ int_max_str_digits \<le> \<bar>n\<bar>
      then Some (ValueError ''Exceeds the limit (4300 digits) for integer string conversion'')
      else None)"
| "json_error _ = None"

fun first_json_error :: "const_value list \<Rightarrow> exception option" where
  "first_json_error [] = None"
| "first_json_error (c # cs) =
     (case json_error c of
        Some e \<Rightarrow> Some e
      | None \<Rightarrow> first_json_error cs)"

definition json_dump :: "results \<Rightarrow> exception + unit" where
  "json_dump r =
     (case first_json_error (concat (map all_exports (analyses r))) of
        Some e \<Rightarrow> Inl e
      | None \<Rightarrow> Inr ())"

definition main :: "environment \<Rightarrow> exception + results" where
  "main env =
     (case install_packages env of
        Inl e \<Rightarrow> Inl e
      | Inr _ \<Rightarrow>
          (case build_results env of
             Inl e \<Rightarrow> Inl e
           | Inr r \<Rightarrow>
               (case json_dump r of
                  Inl e \<Rightarrow> Inl e
                | Inr _ \<Rightarrow> Inr r)))"

text \<open>The interpreter exits with status 1 on an uncaught exception, and with 0 otherwise.\<close>

definition exit_status :: "exception + results \<Rightarrow> nat" where
  "exit_status outcome = (case outcome of Inl _ \<Rightarrow> 1 | Inr _ \<Rightarrow> 0)"

section \<open>Reference notions\<close>

text \<open>
  What the claims compare the visitor with, written as lists in source order. The
  binding an import statement makes for one alias, and all bindings of a tree:
\<close>

definition binding_of :: "string \<Rightarrow> alias_node \<Rightarrow> string \<times> import_mapping" where
  "binding_of m al = (local_name al, \<lparr>module = m, original_name = name al\<rparr>)"

fun import_bindings :: "node \<Rightarrow> (string \<times> import_mapping) list" where
  "import_bindings (ImportFrom node_module names level) =
     (case node_module of
        None \<Rightarrow> []
      | Some m \<Rightarrow> if startswith m ''langchain_core'' then map (binding_of m) names else [])"
| "import_bindings (Assign targets val) = []"
| "import_bindings (Node children) = concat (map import_bindings children)"

text \<open>All assignment statements of a tree, and what the visitor collects from them.\<close>

fun all_assignments :: "node \<Rightarrow> (expr list \<times> expr) list" where
  "all_assignments (ImportFrom node_module names level) = []"
| "all_assignments (Assign targets val) = [(targets, val)]"
| "all_assignments (Node children) = concat (map all_assignments children)"

fun export_values :: "node \<Rightarrow> const_value list" where
  "export_values (ImportFrom node_module names level) = []"
| "export_values (Assign targets val) = visit_Assign targets val []"
| "export_values (Node children) = concat (map export_values children)"







text \<open>
  The import and assignment statements of a tree, in source order, wherever they are
  nested.
\<close>

fun statements :: "node \<Rightarrow> node list" where
  "statements (ImportFrom node_module names level) = [ImportFrom node_module names level]"
| "statements (Assign targets val) = [Assign targets val]"
| "statements (Node children) = concat (map statements children)"

text \<open>
  A file does not end the run when loading it gives a tree that can be walked, or raises
  an exception that the handler catches.
\<close>

definition survives :: "filesystem \<Rightarrow> path \<Rightarrow> bool" where
  "survives fs init_file =
     (case load fs init_file of
        Inl e \<Rightarrow> caught e
      | Inr tree \<Rightarrow> \<not> walk_overflows fs tree)"

section \<open>Example inputs\<close>

text \<open>
  A temporary directory \<open>/tmp\<close> into which pip installed the package: the paths that
  \<open>rglob\<close> finds below \<open>/tmp/langchain\<close>, in the order in which it yields them, each with
  what loading it gives. The trees are small and can be walked.
\<close>

definition installed :: "(path \<times> (exception + node)) list \<Rightarrow> filesystem" where
  "installed entries =
     \<lparr>path_exists = (\<lambda>p. p = [''/'', ''tmp'', ''langchain'']),
      rglob_init = (\<lambda>d. if d = [''/'', ''tmp'', ''langchain''] then map fst entries else []),
      load = (\<lambda>p. case map_of entries p of
                     None \<Rightarrow> Inl (OSError ''No such file or directory'')
                   | Some loaded \<Rightarrow> loaded),
      walk_overflows = (\<lambda>tree. False)\<rparr>"

definition run_on :: "filesystem \<Rightarrow> environment" where
  "run_on fs =
     \<lparr>latest_langchain = ''1.0.0'',
      latest_langchain_core = ''1.0.0'',
      temp_path = [''/'', ''tmp''],
      pip_returncode = 0,
      pip_stderr = [],
      files = fs\<rparr>"

definition top_init :: path where
  "top_init = [''/'', ''tmp'', ''langchain'', ''__init__.py'']"

definition chains_init :: path where
  "chains_init = [''/'', ''tmp'', ''langchain'', ''chains'', ''__init__.py'']"

definition internal_init :: path where
  "internal_init = [''/'', ''tmp'', ''langchain'', ''_internal'', ''__init__.py'']"

definition nested_init :: path where
  "nested_init = [''/'', ''tmp'', ''langchain'', ''__init__.py'', ''__init__.py'']"

text \<open>
  \<^verbatim>\<open>from langchain_core.chains import LLMChain as Chain\<close> followed by
  \<^verbatim>\<open>__all__ = ["Chain", "Other"]\<close>.
\<close>

definition chain_module :: node where
  "chain_module = Node
     [ImportFrom (Some ''langchain_core.chains'') [Alias ''LLMChain'' (Some ''Chain'')] 0,
      Assign [Name ''__all__''] (ListE [Constant (CStr ''Chain''), Constant (CStr ''Other'')])]"

text \<open>\<^verbatim>\<open>from langchain_core.chains import LLMChain\<close>.\<close>

definition plain_module :: node where
  "plain_module = Node
     [ImportFrom (Some ''langchain_core.chains'') [Alias ''LLMChain'' None] 0]"

text \<open>\<^verbatim>\<open>from langchain_core.a import X as M, Y as M\<close>.\<close>

definition twice_aliased_module :: node where
  "twice_aliased_module = Node
     [ImportFrom (Some ''langchain_core.a'')
        [Alias ''X'' (Some ''M''), Alias ''Y'' (Some ''M'')] 0]"

text \<open>
  \<^verbatim>\<open>from langchain_core.messages import AIMessage as Message\<close> followed by
  \<^verbatim>\<open>from langchain_core.prompts import PromptTemplate as Message\<close>.
\<close>

definition shadowing_module :: node where
  "shadowing_module = Node
     [ImportFrom (Some ''langchain_core.messages'') [Alias ''AIMessage'' (Some ''Message'')] 0,
      ImportFrom (Some ''langchain_core.prompts'') [Alias ''PromptTemplate'' (Some ''Message'')] 0]"


text \<open>\<^verbatim>\<open>__all__ = ["a", 1, b]\<close>.\<close>

definition mixed_module :: node where
  "mixed_module = Node
     [Assign [Name ''__all__'']
        (ListE [Constant (CStr ''a''), Constant (CInt 1), Name ''b''])]"

text \<open>\<^verbatim>\<open>__all__ = [b"x"]\<close>.\<close>

definition bytes_module :: node where
  "bytes_module = Node [Assign [Name ''__all__''] (ListE [Constant (CBytes ''x'')])]"

text \<open>The analyses of these modules, each installed as \<open>/tmp/langchain/__init__.py\<close>.\<close>

definition chain_analysis :: analysis where
  "chain_analysis =
     \<lparr>file_name = ''/tmp/langchain/__init__.py'',
      error = None,
      langchain_core_imports =
        [(''Chain'', \<lparr>module = ''langchain_core.chains'', original_name = ''LLMChain''\<rparr>)],
      all_exports = [CStr ''Chain'', CStr ''Other''],
      exported_from_core =
        [(''Chain'', \<lparr>module = ''langchain_core.chains'', original_name = ''LLMChain''\<rparr>)]\<rparr>"

definition plain_analysis :: analysis where
  "plain_analysis =
     \<lparr>file_name = ''/tmp/langchain/__init__.py'',
      error = None,
      langchain_core_imports =
        [(''LLMChain'', \<lparr>module = ''langchain_core.chains'', original_name = ''LLMChain''\<rparr>)],
      all_exports = [],
      exported_from_core = []\<rparr>"

definition shadowing_analysis :: analysis where
  "shadowing_analysis =
     \<lparr>file_name = ''/tmp/langchain/__init__.py'',
      error = None,
      langchain_core_imports =
        [(''Message'',
          \<lparr>module = ''langchain_core.prompts'', original_name = ''PromptTemplate''\<rparr>)],
      all_exports = [],
      exported_from_core = []\<rparr>"


text \<open>A run over two modules: the first has a syntax error, the second is the example above.\<close>

definition broken_and_chain :: environment where
  "broken_and_chain = run_on (installed
     [(top_init, Inl (SyntaxError ''invalid syntax'')),
      (chains_init, Inr chain_module)])"

text \<open>The report of that run.\<close>

definition broken_and_chain_report :: results where
  "broken_and_chain_report =
     \<lparr>metadata = \<lparr>langchain_version = ''1.0.0'',
                  langchain_core_version = ''1.0.0'',
                  total_init_files = 2\<rparr>,
      analyses =
        [\<lparr>file_name = ''/tmp/langchain/__init__.py'',
          error = Some ''invalid syntax'',
          langchain_core_imports = [],
          all_exports = [],
          exported_from_core = []\<rparr>,
         chain_analysis\<lparr>file_name := ''/tmp/langchain/chains/__init__.py''\<rparr>],
      summary = \<lparr>total_langchain_core_reexports = 1,
                 modules_with_core_reexports = 1\<rparr>\<rparr>"

text \<open>
  The same, but the source of the first module is malformed in a way that makes the
  parser give up with \<open>MemoryError\<close> (a hundred thousand nested unary minus signs before
  the error).
\<close>

definition exhausting_and_chain :: environment where
  "exhausting_and_chain = run_on (installed
     [(top_init, Inl (MemoryError [])),
      (chains_init, Inr chain_module)])"

text \<open>A package with a public module and a private subpackage, and the report of the run.\<close>

definition public_and_internal :: environment where
  "public_and_internal = run_on (installed
     [(top_init, Inr chain_module),
      (internal_init, Inr chain_module)])"

definition public_and_internal_report :: results where
  "public_and_internal_report =
     \<lparr>metadata = \<lparr>langchain_version = ''1.0.0'',
                  langchain_core_version = ''1.0.0'',
                  total_init_files = 1\<rparr>,
      analyses = [chain_analysis],
      summary = \<lparr>total_langchain_core_reexports = 1,
                 modules_with_core_reexports = 1\<rparr>\<rparr>"

text \<open>
  A directory named \<open>__init__.py\<close> that holds a file \<open>__init__.py\<close>: \<open>rglob\<close> yields both,
  and the directory cannot be opened as a file.
\<close>

definition init_named_directory :: filesystem where
  "init_named_directory = installed
     [(top_init, Inl (OSError ''Is a directory'')),
      (nested_init, Inr chain_module)]"

section \<open>The import dictionary\<close>

lemma startswith_empty [simp]: "\<not> startswith [] ''langchain_core''"
  by (simp add: startswith_def)

lemma map_of_store_import:
  "map_of (store_import m al imps) =
     (map_of imps)(local_name al \<mapsto> \<lparr>module = m, original_name = name al\<rparr>)"
  by (simp add: store_import_def update_conv')

text \<open>Storing the aliases of one statement: later bindings override earlier ones.\<close>

lemma map_of_fold_store_import:
  "map_of (fold (store_import m) names imps) =
     map_of imps ++ map_of (rev (map (binding_of m) names))"
proof (induction names arbitrary: imps)
  case Nil
  then show ?case by simp
next
  case (Cons al names)
  have s: "map_of (store_import m al imps) = map_of imps ++ map_of [binding_of m al]"
    by (simp add: map_of_store_import binding_of_def)
  have "map_of (fold (store_import m) (al # names) imps) =
          map_of (store_import m al imps) ++ map_of (rev (map (binding_of m) names))"
    by (simp add: Cons.IH)
  also have "\<dots> = (map_of imps ++ map_of [binding_of m al])
                     ++ map_of (rev (map (binding_of m) names))"
    by (simp only: s)
  also have "\<dots> = map_of imps ++ map_of (rev (map (binding_of m) (al # names)))"
    by (simp only: rev.simps list.map map_of_append map_add_assoc)
  finally show ?case .
qed

lemma map_of_visit_ImportFrom:
  "map_of (visit_ImportFrom node_module names imps) =
     map_of imps ++ map_of (rev (import_bindings (ImportFrom node_module names level)))"
  by (auto simp: visit_ImportFrom_def map_of_fold_store_import split: option.splits)

text \<open>The whole traversal, from any state: induction along the visitor's own recursion.\<close>

lemma map_of_visit:
  "map_of (fst (visit t st)) = map_of (fst st) ++ map_of (rev (import_bindings t))"
proof (induction t st rule: visit.induct)
  case (1 node_module names level st)
  then show ?case
    by (simp add: map_of_visit_ImportFrom del: import_bindings.simps)
next
  case (2 targets val st)
  then show ?case by simp
next
  case (3 children st)
  then show ?case
  proof (induction children arbitrary: st)
    case Nil
    then show ?case by simp
  next
    case (Cons c cs)
    have hd: "map_of (fst (visit c st)) = map_of (fst st) ++ map_of (rev (import_bindings c))"
      using Cons.prems [of c st] by simp
    have tl: "map_of (fst (visit (Node cs) (visit c st))) =
                map_of (fst (visit c st)) ++ map_of (rev (import_bindings (Node cs)))"
      using Cons.IH [of "visit c st"] Cons.prems by simp
    show ?case
      using hd tl by (simp add: rev_concat map_add_assoc flip: map_of_append)
  qed
qed

lemma map_of_rev_last:
  assumes "bs = before @ [(k, v)] @ after" and "k \<notin> fst ` set after"
  shows "map_of (rev bs) k = Some v"
proof -
  have "map_of (rev after) k = None"
    using assms(2) by (simp add: map_of_eq_None_iff)
  then show ?thesis
    by (simp add: assms(1) map_add_def)
qed

text \<open>The shape of what \<open>analyze_init_file\<close> returns.\<close>

lemma analyze_parsed:
  assumes "load fs init_file = Inr tree" and "analyze_init_file fs init_file = Inr a"
  shows "a = \<lparr>file_name = str_path init_file,
              error = None,
              langchain_core_imports = fst (visit tree ([], [])),
              all_exports = snd (visit tree ([], [])),
              exported_from_core =
                fold (add_export (fst (visit tree ([], [])))) (snd (visit tree ([], []))) []\<rparr>"
  using assms by (auto simp: analyze_init_file_def Let_def split: if_splits)

lemma analyze_parsed_returns:
  assumes "load fs init_file = Inr tree" and "\<not> walk_overflows fs tree"
  shows "\<exists>a. analyze_init_file fs init_file = Inr a"
  using assms by (simp add: analyze_init_file_def Let_def)

lemma analyze_failed:
  assumes "load fs init_file = Inl e" and "caught e"
  shows "analyze_init_file fs init_file =
     Inr \<lparr>file_name = str_path init_file, error = Some (str_exception e),
          langchain_core_imports = [], all_exports = [], exported_from_core = []\<rparr>"
  using assms by (simp add: analyze_init_file_def)

lemma analyze_not_parsed:
  assumes "load fs init_file = Inl e" and "analyze_init_file fs init_file = Inr a"
  shows "a = \<lparr>file_name = str_path init_file, error = Some (str_exception e),
              langchain_core_imports = [], all_exports = [], exported_from_core = []\<rparr>"
  using assms by (auto simp: analyze_init_file_def split: if_splits)

lemma analyze_installed:
  assumes "load (installed entries) init_file = Inr tree"
  shows "analyze_init_file (installed entries) init_file =
     Inr \<lparr>file_name = str_path init_file,
          error = None,
          langchain_core_imports = fst (visit tree ([], [])),
          all_exports = snd (visit tree ([], [])),
          exported_from_core =
            fold (add_export (fst (visit tree ([], [])))) (snd (visit tree ([], []))) []\<rparr>"
proof -
  have "\<not> walk_overflows (installed entries) tree"
    by (simp add: installed_def)
  then show ?thesis
    using assms by (simp add: analyze_init_file_def Let_def)
qed

lemma load_installed_single: "load (installed [(init_file, loaded)]) init_file = loaded"
  by (simp add: installed_def)

lemma str_path_top_init: "str_path top_init = ''/tmp/langchain/__init__.py''"
  by (simp add: top_init_def)

lemma imports_of_parsed:
  assumes "load fs init_file = Inr tree" and "analyze_init_file fs init_file = Inr a"
  shows "map_of (langchain_core_imports a) = map_of (rev (import_bindings tree))"
  by (simp add: analyze_parsed [OF assms] map_of_visit)

lemma import_bindings_statements:
  "import_bindings tree = concat (map import_bindings (statements tree))"
proof (induction tree)
  case (ImportFrom node_module names level)
  then show ?case by simp
next
  case (Assign targets val)
  then show ?case by simp
next
  case (Node children)
  then show ?case
    by (induction children) simp_all
qed

text \<open>
  Claim C2, as stated: every import from the upstream package that renames a symbol is
  recorded with the alias as key and the name before \<open>as\<close> as \<open>original_name\<close>. It
  fails when a later alias binds the same local name: for
  \<^verbatim>\<open>from langchain_core.a import X as M, Y as M\<close> the dictionary has the one key \<open>M\<close>,
  and its \<open>original_name\<close> is \<open>Y\<close>, not \<open>X\<close>.
\<close>

theorem shadowed_alias_not_recorded:
  "analyze_init_file (installed [(top_init, Inr twice_aliased_module)]) top_init =
     Inr \<lparr>file_name = str_path top_init,
          error = None,
          langchain_core_imports =
            [(''M'', \<lparr>module = ''langchain_core.a'', original_name = ''Y''\<rparr>)],
          all_exports = [],
          exported_from_core = []\<rparr>"
  by (simp add: analyze_installed [OF load_installed_single] twice_aliased_module_def
      visit_ImportFrom_def startswith_def store_import_def local_name_def)

text \<open>
  Claim C2, amended. Take an import statement anywhere in a module, from a module whose
  name starts with \<open>langchain_core\<close>, and one of its aliases such that no later alias
  of the statement and no later import from the upstream package binds the same local
  name. Then the dictionary of the analysis has an entry for it with the statement's
  module and the name before \<open>as\<close> as \<open>original_name\<close>: under the alias when the
  symbol is renamed, under the original name when it is not.
\<close>

theorem aliased_import_recorded:
  assumes "load fs init_file = Inr tree"
    and "analyze_init_file fs init_file = Inr a"
    and "statements tree =
           pre @ [ImportFrom (Some m) (earlier @ [al] @ later) level] @ post"
    and "startswith m ''langchain_core''"
    and "local_name al \<notin> local_name ` set later"
    and "local_name al \<notin> fst ` set (concat (map import_bindings post))"
  shows "(al = Alias n (Some alias) \<and> alias \<noteq> [] \<longrightarrow>
            map_of (langchain_core_imports a) alias =
              Some \<lparr>module = m, original_name = n\<rparr>) \<and>
         (al = Alias n None \<longrightarrow>
            map_of (langchain_core_imports a) n =
              Some \<lparr>module = m, original_name = n\<rparr>)"
proof -
  let ?after = "map (binding_of m) later @ concat (map import_bindings post)"
  have "import_bindings tree =
          (concat (map import_bindings pre) @ map (binding_of m) earlier)
            @ [(local_name al, \<lparr>module = m, original_name = name al\<rparr>)] @ ?after"
    using assms(4) by (simp add: import_bindings_statements [of tree] assms(3) binding_of_def)
  moreover have "local_name al \<notin> fst ` set ?after"
    using assms(5,6) by (auto simp: binding_of_def)
  ultimately have "map_of (rev (import_bindings tree)) (local_name al) =
      Some \<lparr>module = m, original_name = name al\<rparr>"
    by (rule map_of_rev_last)
  then have "map_of (langchain_core_imports a) (local_name al) =
      Some \<lparr>module = m, original_name = name al\<rparr>"
    by (simp add: imports_of_parsed [OF assms(1,2)])
  then show ?thesis
    by (auto simp: local_name_def)
qed

lemma analyze_chain_module:
  assumes "load (installed entries) init_file = Inr chain_module"
  shows "analyze_init_file (installed entries) init_file =
     Inr \<lparr>file_name = str_path init_file,
          error = None,
          langchain_core_imports =
            [(''Chain'', \<lparr>module = ''langchain_core.chains'', original_name = ''LLMChain''\<rparr>)],
          all_exports = [CStr ''Chain'', CStr ''Other''],
          exported_from_core =
            [(''Chain'', \<lparr>module = ''langchain_core.chains'', original_name = ''LLMChain''\<rparr>)]\<rparr>"
  by (simp add: analyze_installed [OF assms] chain_module_def
      visit_ImportFrom_def startswith_def store_import_def local_name_def
      visit_Assign_def add_export_def)

lemma analyze_chain_top:
  "analyze_init_file (installed [(top_init, Inr chain_module)]) top_init = Inr chain_analysis"
  by (simp add: analyze_chain_module [OF load_installed_single] chain_analysis_def top_init_def)

lemma analyze_plain_top:
  "analyze_init_file (installed [(top_init, Inr plain_module)]) top_init = Inr plain_analysis"
  by (simp add: analyze_installed [OF load_installed_single] plain_module_def
      plain_analysis_def top_init_def
      visit_ImportFrom_def startswith_def store_import_def local_name_def)

text \<open>
  The example of the claim, with the upstream package of the script:
  \<^verbatim>\<open>from langchain_core.chains import LLMChain as Chain\<close>, and the same without \<open>as\<close>.
\<close>

theorem aliased_import_recorded_witness:
  "analyze_init_file (installed [(top_init, Inr chain_module)]) top_init = Inr chain_analysis \<and>
   map_of (langchain_core_imports chain_analysis) ''Chain'' =
     Some \<lparr>module = ''langchain_core.chains'', original_name = ''LLMChain''\<rparr> \<and>
   analyze_init_file (installed [(top_init, Inr plain_module)]) top_init = Inr plain_analysis \<and>
   map_of (langchain_core_imports plain_analysis) ''LLMChain'' =
     Some \<lparr>module = ''langchain_core.chains'', original_name = ''LLMChain''\<rparr>"
proof -
  have m: "startswith ''langchain_core.chains'' ''langchain_core''"
    by (simp add: startswith_def)
  have s1: "statements chain_module =
     [] @ [ImportFrom (Some ''langchain_core.chains'')
             ([] @ [Alias ''LLMChain'' (Some ''Chain'')] @ []) 0]
        @ [Assign [Name ''__all__'']
             (ListE [Constant (CStr ''Chain''), Constant (CStr ''Other'')])]"
    by (simp add: chain_module_def)
  have k1: "local_name (Alias ''LLMChain'' (Some ''Chain'')) \<notin> local_name ` set []"
    by simp
  have p1: "local_name (Alias ''LLMChain'' (Some ''Chain'')) \<notin>
      fst ` set (concat (map import_bindings
        [Assign [Name ''__all__'']
           (ListE [Constant (CStr ''Chain''), Constant (CStr ''Other'')])]))"
    by simp
  have s2: "statements plain_module =
     [] @ [ImportFrom (Some ''langchain_core.chains'') ([] @ [Alias ''LLMChain'' None] @ []) 0]
        @ []"
    by (simp add: plain_module_def)
  have k2: "local_name (Alias ''LLMChain'' None) \<notin> local_name ` set []"
    by simp
  have p2: "local_name (Alias ''LLMChain'' None) \<notin>
      fst ` set (concat (map import_bindings []))"
    by simp
  show ?thesis
    using analyze_chain_top analyze_plain_top
      aliased_import_recorded
        [OF load_installed_single analyze_chain_top s1 m k1 p1, of "''LLMChain''" "''Chain''"]
      aliased_import_recorded
        [OF load_installed_single analyze_plain_top s2 m k2 p2, of "''LLMChain''" "''Chain''"]
    by simp
qed

text \<open>
  Claim C3. The claim: a module name that only shares the identifier as a string prefix,
  such as \<open>langchain_corex.foo\<close>, contributes no binding. The script tests
  \<open>startswith("langchain_core")\<close>, so the statement
  \<^verbatim>\<open>from langchain_corex.foo import X\<close> is recorded as an import from \<open>langchain_core\<close>.
\<close>

theorem langchain_corex_import_recorded:
  "visit_ImportFrom (Some ''langchain_corex.foo'') [Alias ''X'' None] [] =
     [(''X'', \<lparr>module = ''langchain_corex.foo'', original_name = ''X''\<rparr>)]"
  by (simp add: visit_ImportFrom_def startswith_def store_import_def local_name_def)

text \<open>
  Claim C5. When a local name is bound by several imports from the upstream package, the
  entry recorded for it is the one of the last such binding in source order: if the
  bindings of the module, in source order, are \<open>before @ [(k, v)] @ after\<close> and no
  binding in \<open>after\<close> has the key \<open>k\<close>, the dictionary of the analysis maps \<open>k\<close> to \<open>v\<close>.
\<close>

theorem last_binding_wins:
  assumes "load fs init_file = Inr tree"
    and "analyze_init_file fs init_file = Inr a"
    and "import_bindings tree = before @ [(k, v)] @ after"
    and "k \<notin> fst ` set after"
  shows "map_of (langchain_core_imports a) k = Some v"
  using map_of_rev_last [OF assms(3,4)] by (simp add: imports_of_parsed [OF assms(1,2)])

lemma analyze_shadowing_top:
  "analyze_init_file (installed [(top_init, Inr shadowing_module)]) top_init =
     Inr shadowing_analysis"
  by (simp add: analyze_installed [OF load_installed_single] shadowing_module_def
      shadowing_analysis_def top_init_def
      visit_ImportFrom_def startswith_def store_import_def local_name_def)

theorem last_binding_wins_witness:
  "analyze_init_file (installed [(top_init, Inr shadowing_module)]) top_init =
     Inr shadowing_analysis \<and>
   import_bindings shadowing_module =
     [(''Message'', \<lparr>module = ''langchain_core.messages'', original_name = ''AIMessage''\<rparr>)]
     @ [(''Message'', \<lparr>module = ''langchain_core.prompts'', original_name = ''PromptTemplate''\<rparr>)]
     @ [] \<and>
   map_of (langchain_core_imports shadowing_analysis) ''Message'' =
     Some \<lparr>module = ''langchain_core.prompts'', original_name = ''PromptTemplate''\<rparr>"
proof -
  have b: "import_bindings shadowing_module =
     [(''Message'', \<lparr>module = ''langchain_core.messages'', original_name = ''AIMessage''\<rparr>)]
     @ [(''Message'', \<lparr>module = ''langchain_core.prompts'', original_name = ''PromptTemplate''\<rparr>)]
     @ []"
    by (simp add: shadowing_module_def startswith_def binding_of_def local_name_def)
  have k: "''Message'' \<notin> fst ` set ([] :: (string \<times> import_mapping) list)"
    by simp
  show ?thesis
    using b analyze_shadowing_top
      last_binding_wins [OF load_installed_single analyze_shadowing_top b k]
    by simp
qed

text \<open>
  Claim C10. An import-from statement without a module (\<^verbatim>\<open>from . import x\<close>) leaves
  the import dictionary, and the whole visitor state, as it was; the visitor is a total
  function, so nothing fails. A statement changes the dictionary only when it carries a
  module string that starts with \<open>langchain_core\<close>.
\<close>

theorem import_without_module_ignored:
  "visit_ImportFrom None names imps = imps \<and>
   visit (ImportFrom None names level) st = st \<and>
   (visit_ImportFrom node_module names imps \<noteq> imps \<longrightarrow>
      (\<exists>m. node_module = Some m \<and> startswith m ''langchain_core''))"
  by (auto simp: visit_ImportFrom_def split: option.splits)

theorem import_without_module_ignored_witness:
  "visit_ImportFrom None [Alias ''x'' None] [] = [] \<and>
   visit (ImportFrom None [Alias ''x'' None] 1) ([], []) = ([], []) \<and>
   visit_ImportFrom (Some ''langchain_core.messages'') [Alias ''AIMessage'' None] [] \<noteq> [] \<and>
   startswith ''langchain_core.messages'' ''langchain_core''"
proof -
  have h: "visit_ImportFrom (Some ''langchain_core.messages'') [Alias ''AIMessage'' None] []
             \<noteq> []"
    by (simp add: visit_ImportFrom_def startswith_def store_import_def)
  show ?thesis
    using h import_without_module_ignored
      [of "[Alias ''x'' None]" "[]" 1 "([], [])" "Some ''langchain_core.messages''"]
      import_without_module_ignored
      [of "[Alias ''AIMessage'' None]" "[]" 1 "([], [])" "Some ''langchain_core.messages''"]
    by blast
qed

section \<open>The export list\<close>

text \<open>Both loops only ever append to \<open>all_exports\<close>.\<close>

lemma extend_exports_append:
  "extend_exports val target acc = acc @ extend_exports val target []"
  by (cases "(val, target, acc)" rule: extend_exports.cases) auto

lemma visit_Assign_append:
  "visit_Assign targets val acc = acc @ visit_Assign targets val []"
  unfolding visit_Assign_def
proof (induction targets arbitrary: acc)
  case Nil
  then show ?case by simp
next
  case (Cons t ts)
  have "fold (extend_exports val) (t # ts) acc =
          extend_exports val t acc @ fold (extend_exports val) ts []"
    using Cons.IH [of "extend_exports val t acc"] by simp
  also have "\<dots> = acc @ extend_exports val t [] @ fold (extend_exports val) ts []"
    using extend_exports_append [of val t acc] by simp
  also have "\<dots> = acc @ fold (extend_exports val) (t # ts) []"
    using Cons.IH [of "extend_exports val t []"] by simp
  finally show ?case .
qed

lemma visit_Assign_Cons:
  "visit_Assign (t # ts) val [] = extend_exports val t [] @ visit_Assign ts val []"
  using visit_Assign_append [of ts val "extend_exports val t []"]
  by (simp add: visit_Assign_def)













text \<open>What is collected comes from a list assigned to \<open>__all__\<close>, and is a literal.\<close>

lemma constant_values_mem: "c \<in> set (constant_values elts) \<Longrightarrow> Constant c \<in> set elts"
  by (induction elts rule: constant_values.induct) auto

lemma extend_exports_mem:
  "c \<in> set (extend_exports val target []) \<Longrightarrow>
     target = Name ''__all__'' \<and> (\<exists>elts. val = ListE elts \<and> Constant c \<in> set elts)"
  by (cases "(val, target, [] :: const_value list)" rule: extend_exports.cases)
     (auto dest: constant_values_mem split: if_splits)

lemma visit_Assign_mem:
  "c \<in> set (visit_Assign targets val []) \<Longrightarrow>
     Name ''__all__'' \<in> set targets \<and> (\<exists>elts. val = ListE elts \<and> Constant c \<in> set elts)"
proof (induction targets)
  case Nil
  then show ?case by (simp add: visit_Assign_def)
next
  case (Cons t ts)
  then show ?case
    using extend_exports_mem [of c val t] by (auto simp: visit_Assign_Cons)
qed

lemma export_values_mem:
  "c \<in> set (export_values t) \<Longrightarrow>
     \<exists>targets elts. (targets, ListE elts) \<in> set (all_assignments t) \<and>
        Name ''__all__'' \<in> set targets \<and> Constant c \<in> set elts"
proof (induction t)
  case (ImportFrom node_module names level)
  then show ?case by simp
next
  case (Assign targets val)
  then show ?case
    using visit_Assign_mem [of c targets val] by auto
next
  case (Node children)
  then show ?case by fastforce
qed

text \<open>
  Claim C7. The claim: every element of the export list is a literal string. The visitor
  keeps every \<open>ast.Constant\<close> without looking at the type of its value, so
  \<^verbatim>\<open>__all__ = ["a", 1, b]\<close> gives \<open>["a", 1]\<close>: the name \<open>b\<close> is skipped, the
  number is exported.
\<close>

theorem non_string_constant_exported:
  "analyze_init_file (installed [(top_init, Inr mixed_module)]) top_init =
     Inr \<lparr>file_name = str_path top_init,
          error = None,
          langchain_core_imports = [],
          all_exports = [CStr ''a'', CInt 1],
          exported_from_core = []\<rparr>"
  by (simp add: analyze_installed [OF load_installed_single] mixed_module_def
      visit_Assign_def add_export_def)

section \<open>Re-exports of one module\<close>

lemma map_of_add_export:
  "map_of (add_export imps export exported) k =
     (if export = CStr k \<and> map_of imps k \<noteq> None then map_of imps k else map_of exported k)"
  by (cases export) (auto simp: add_export_def update_conv' split: option.splits)

lemma map_of_fold_add_export:
  "map_of (fold (add_export imps) exports exported) k =
     (if CStr k \<in> set exports \<and> map_of imps k \<noteq> None then map_of imps k
      else map_of exported k)"
  by (induction exports arbitrary: exported) (auto simp: map_of_add_export)

lemma map_of_exported_from_core:
  assumes "analyze_init_file fs init_file = Inr a"
  shows "map_of (exported_from_core a) k =
     (if CStr k \<in> set (all_exports a) \<and> map_of (langchain_core_imports a) k \<noteq> None
      then map_of (langchain_core_imports a) k
      else None)"
proof (cases "load fs init_file")
  case (Inl e)
  then show ?thesis
    by (simp add: analyze_not_parsed [OF Inl assms])
next
  case (Inr tree)
  then show ?thesis
    by (simp add: analyze_parsed [OF Inr assms] map_of_fold_add_export)
qed

text \<open>
  Claim C1. In every analysis that \<open>analyze_init_file\<close> returns, whether the file parsed
  or not, each key of \<open>exported_from_core\<close> is a key of \<open>langchain_core_imports\<close> and,
  as a string, an element of \<open>all_exports\<close>, and the two dictionaries hold the same
  \<open>module\<close>/\<open>original_name\<close> entry for it.
\<close>

theorem reexports_contained:
  assumes "analyze_init_file fs init_file = Inr a"
    and "k \<in> fst ` set (exported_from_core a)"
  shows "k \<in> fst ` set (langchain_core_imports a) \<and>
         CStr k \<in> set (all_exports a) \<and>
         map_of (exported_from_core a) k = map_of (langchain_core_imports a) k"
proof -
  have "map_of (exported_from_core a) k \<noteq> None"
    using assms(2) by (simp add: map_of_eq_None_iff)
  then have "CStr k \<in> set (all_exports a)"
    and "map_of (langchain_core_imports a) k \<noteq> None"
    and "map_of (exported_from_core a) k = map_of (langchain_core_imports a) k"
    by (simp_all add: map_of_exported_from_core [OF assms(1)] split: if_splits)
  then show ?thesis
    by (simp add: map_of_eq_None_iff)
qed

theorem reexports_contained_witness:
  "analyze_init_file (installed [(top_init, Inr chain_module)]) top_init = Inr chain_analysis \<and>
   ''Chain'' \<in> fst ` set (exported_from_core chain_analysis) \<and>
   ''Chain'' \<in> fst ` set (langchain_core_imports chain_analysis) \<and>
   CStr ''Chain'' \<in> set (all_exports chain_analysis) \<and>
   map_of (exported_from_core chain_analysis) ''Chain'' =
     Some \<lparr>module = ''langchain_core.chains'', original_name = ''LLMChain''\<rparr>"
proof -
  have h: "''Chain'' \<in> fst ` set (exported_from_core chain_analysis)"
    by (simp add: chain_analysis_def)
  show ?thesis
    using h analyze_chain_top reexports_contained [OF analyze_chain_top h]
    by (simp add: chain_analysis_def)
qed

section \<open>The whole run\<close>

lemma survives_returns:
  "survives fs init_file \<Longrightarrow> \<exists>a. analyze_init_file fs init_file = Inr a"
  by (auto simp: survives_def analyze_init_file_def Let_def split: sum.splits)

lemma analyze_all_returns:
  "list_all (survives fs) init_files \<Longrightarrow> \<exists>as. analyze_all fs init_files = Inr as"
proof (induction init_files)
  case Nil
  then show ?case by simp
next
  case (Cons f init_files)
  then obtain a as where "analyze_init_file fs f = Inr a" "analyze_all fs init_files = Inr as"
    using survives_returns [of fs f] by auto
  then show ?case by simp
qed

text \<open>When the loop ends, the list holds what each call returned, in order.\<close>

lemma analyze_all_result:
  "analyze_all fs init_files = Inr as \<Longrightarrow> map Inr as = map (analyze_init_file fs) init_files"
  by (induction init_files arbitrary: as) (auto split: sum.splits)

lemma failed_no_reexports:
  assumes "analyze_init_file fs init_file = Inr a" and "error a \<noteq> None"
  shows "exported_from_core a = []"
proof (cases "load fs init_file")
  case (Inl e)
  then show ?thesis
    by (simp add: analyze_not_parsed [OF Inl assms(1)])
next
  case (Inr tree)
  then show ?thesis
    using assms(2) by (simp add: analyze_parsed [OF Inr assms(1)])
qed

lemma analyze_all_failed_no_reexports:
  assumes "analyze_all fs init_files = Inr as" and "a \<in> set as" and "error a \<noteq> None"
  shows "exported_from_core a = []"
proof -
  have "Inr a \<in> set (map (analyze_init_file fs) init_files)"
    using assms(2) analyze_all_result [OF assms(1)]
    by (metis image_eqI list.set_map)
  then obtain f where "analyze_init_file fs f = Inr a"
    by auto
  then show ?thesis
    using assms(3) by (rule failed_no_reexports)
qed

lemma fold_count_reexports:
  "fold count_reexports as acc =
     (fst acc + sum_list (map (\<lambda>a. length (exported_from_core a)) as),
      snd acc + length (filter (\<lambda>a. exported_from_core a \<noteq> []) as))"
  by (induction as arbitrary: acc) (auto simp: count_reexports_def)

lemma sum_list_successful:
  assumes "\<And>a. a \<in> set as \<Longrightarrow> error a \<noteq> None \<Longrightarrow> exported_from_core a = []"
  shows "sum_list (map (\<lambda>a. length (exported_from_core a)) as) =
         sum_list (map (\<lambda>a. length (exported_from_core a)) (filter (\<lambda>a. error a = None) as))"
  using assms by (induction as) auto

lemma count_successful:
  assumes "\<And>a. a \<in> set as \<Longrightarrow> error a \<noteq> None \<Longrightarrow> exported_from_core a = []"
  shows "length (filter (\<lambda>a. exported_from_core a \<noteq> []) as) =
         length (filter (\<lambda>a. exported_from_core a \<noteq> []) (filter (\<lambda>a. error a = None) as))"
  using assms by (induction as) auto

lemma build_results_analyses:
  assumes "build_results env = Inr r"
  shows "analyze_all (files env) (find_init_files (files env) (temp_path env)) =
           Inr (analyses r)"
  using assms by (auto simp: build_results_def Let_def split: sum.splits)

lemma build_results_summary:
  assumes "build_results env = Inr r"
  shows "summary r =
     \<lparr>total_langchain_core_reexports =
        sum_list (map (\<lambda>a. length (exported_from_core a)) (analyses r)),
      modules_with_core_reexports =
        length (filter (\<lambda>a. exported_from_core a \<noteq> []) (analyses r))\<rparr>"
  using assms by (auto simp: build_results_def Let_def fold_count_reexports split: sum.splits)

lemma build_results_returns:
  assumes "list_all (survives (files env)) (find_init_files (files env) (temp_path env))"
  shows "\<exists>r. build_results env = Inr r"
  using analyze_all_returns [OF assms] by (auto simp: build_results_def Let_def)

lemma main_result: "main env = Inr r \<Longrightarrow> build_results env = Inr r"
  by (auto simp: main_def split: sum.splits)

lemma find_init_files_two:
  assumes "\<not> is_private (butlast (relative_to f [''/'', ''tmp'', ''langchain'']))"
    and "\<not> is_private (butlast (relative_to g [''/'', ''tmp'', ''langchain'']))"
  shows "find_init_files (installed [(f, x), (g, y)]) [''/'', ''tmp''] = [f, g]"
  using assms by (simp add: find_init_files_def installed_def)

lemma top_init_public:
  "\<not> is_private (butlast (relative_to top_init [''/'', ''tmp'', ''langchain'']))"
  by (simp add: top_init_def relative_to_def is_private_def)

lemma chains_init_public:
  "\<not> is_private (butlast (relative_to chains_init [''/'', ''tmp'', ''langchain'']))"
  by (simp add: chains_init_def relative_to_def is_private_def startswith_def)

lemma top_init_neq_chains_init: "top_init \<noteq> chains_init"
  by (simp add: top_init_def chains_init_def)

text \<open>
  Claim C4, as stated: every module whose source fails to parse gets an analysis with an
  error, and the failure stops nothing. The handler names three classes of exception.
  When the parser gives up on a malformed source with \<open>MemoryError\<close>, the exception
  leaves \<open>analyze_init_file\<close> and \<open>main\<close>: that module has no analysis, the next module
  is not analysed and no report is built.
\<close>

theorem parser_exhaustion_aborts_run:
  "load (files exhausting_and_chain) top_init = Inl (MemoryError []) \<and>
   find_init_files (files exhausting_and_chain) (temp_path exhausting_and_chain) =
     [top_init, chains_init] \<and>
   analyze_init_file (files exhausting_and_chain) top_init = Inl (MemoryError []) \<and>
   build_results exhausting_and_chain = Inl (MemoryError []) \<and>
   main exhausting_and_chain = Inl (MemoryError []) \<and>
   exit_status (main exhausting_and_chain) = 1"
proof -
  have f: "find_init_files (files exhausting_and_chain) (temp_path exhausting_and_chain) =
             [top_init, chains_init]"
    by (simp add: exhausting_and_chain_def run_on_def
        find_init_files_two [OF top_init_public chains_init_public])
  have l: "load (files exhausting_and_chain) top_init = Inl (MemoryError [])"
    by (simp add: exhausting_and_chain_def run_on_def installed_def)
  have a: "analyze_init_file (files exhausting_and_chain) top_init = Inl (MemoryError [])"
    by (simp add: analyze_init_file_def l)
  have b: "build_results exhausting_and_chain = Inl (MemoryError [])"
    by (simp add: build_results_def f a)
  have p: "pip_returncode exhausting_and_chain = 0"
    by (simp add: exhausting_and_chain_def run_on_def)
  have m: "main exhausting_and_chain = Inl (MemoryError [])"
    by (simp add: main_def install_packages_def p b)
  show ?thesis
    using f l a b m by (simp add: exit_status_def)
qed

text \<open>
  Claim C4, amended. A module whose loading raises \<open>OSError\<close>, \<open>SyntaxError\<close> or
  \<open>ValueError\<close> (the file cannot be read or decoded, or has a syntax error) gets an
  analysis with the error message and empty imports, exports and re-exports. Such a
  failure stops nothing: when every init file either loads and is walked or fails in
  this way, the results are built; and whenever they are built they hold, in order, what
  \<open>analyze_init_file\<close> returned for every init file, and the two counters of the summary
  are the number of re-exports, and the number of modules having one, over the modules
  analysed without error.
\<close>

theorem caught_failure_isolated:
  "(load (files env) f = Inl e \<and> caught e \<longrightarrow>
      analyze_init_file (files env) f =
        Inr \<lparr>file_name = str_path f, error = Some (str_exception e),
             langchain_core_imports = [], all_exports = [], exported_from_core = []\<rparr>) \<and>
   (list_all (survives (files env)) (find_init_files (files env) (temp_path env)) \<longrightarrow>
      (\<exists>r. build_results env = Inr r)) \<and>
   (build_results env = Inr r \<longrightarrow>
      map Inr (analyses r) =
        map (analyze_init_file (files env)) (find_init_files (files env) (temp_path env)) \<and>
      total_langchain_core_reexports (summary r) =
        sum_list (map (\<lambda>a. length (exported_from_core a))
          (filter (\<lambda>a. error a = None) (analyses r))) \<and>
      modules_with_core_reexports (summary r) =
        length (filter (\<lambda>a. exported_from_core a \<noteq> [])
          (filter (\<lambda>a. error a = None) (analyses r))))"
proof (intro conjI impI)
  assume "load (files env) f = Inl e \<and> caught e"
  then show "analyze_init_file (files env) f =
      Inr \<lparr>file_name = str_path f, error = Some (str_exception e),
           langchain_core_imports = [], all_exports = [], exported_from_core = []\<rparr>"
    by (simp add: analyze_failed)
next
  assume "list_all (survives (files env)) (find_init_files (files env) (temp_path env))"
  then show "\<exists>r. build_results env = Inr r"
    by (rule build_results_returns)
next
  assume r: "build_results env = Inr r"
  note all = build_results_analyses [OF r]
  have empty: "\<And>a. a \<in> set (analyses r) \<Longrightarrow> error a \<noteq> None \<Longrightarrow> exported_from_core a = []"
    using analyze_all_failed_no_reexports [OF all] by blast
  show "map Inr (analyses r) =
      map (analyze_init_file (files env)) (find_init_files (files env) (temp_path env))"
    using all by (rule analyze_all_result)
  show "total_langchain_core_reexports (summary r) =
      sum_list (map (\<lambda>a. length (exported_from_core a))
        (filter (\<lambda>a. error a = None) (analyses r)))"
    using sum_list_successful [of "analyses r", OF empty]
    by (simp add: build_results_summary [OF r])
  show "modules_with_core_reexports (summary r) =
      length (filter (\<lambda>a. exported_from_core a \<noteq> [])
        (filter (\<lambda>a. error a = None) (analyses r)))"
    using count_successful [of "analyses r", OF empty]
    by (simp add: build_results_summary [OF r])
qed

lemma find_init_files_broken_and_chain:
  "find_init_files (files broken_and_chain) (temp_path broken_and_chain) =
     [top_init, chains_init]"
  by (simp add: broken_and_chain_def run_on_def
      find_init_files_two [OF top_init_public chains_init_public])

lemma load_broken:
  "load (files broken_and_chain) top_init = Inl (SyntaxError ''invalid syntax'')"
  by (simp add: broken_and_chain_def run_on_def installed_def)

lemma load_chain:
  "load (installed [(top_init, Inl (SyntaxError ''invalid syntax'')),
                    (chains_init, Inr chain_module)]) chains_init = Inr chain_module"
  using top_init_neq_chains_init by (simp add: installed_def)

lemma build_results_broken_and_chain:
  "build_results broken_and_chain = Inr broken_and_chain_report"
proof -
  have a1: "analyze_init_file (files broken_and_chain) top_init =
      Inr \<lparr>file_name = ''/tmp/langchain/__init__.py'', error = Some ''invalid syntax'',
           langchain_core_imports = [], all_exports = [], exported_from_core = []\<rparr>"
    by (simp add: analyze_failed [OF load_broken] str_path_top_init)
  have a2: "analyze_init_file (files broken_and_chain) chains_init =
      Inr (chain_analysis\<lparr>file_name := ''/tmp/langchain/chains/__init__.py''\<rparr>)"
    by (simp add: broken_and_chain_def run_on_def analyze_chain_module [OF load_chain]
        chain_analysis_def)
       (simp add: chains_init_def)
  show ?thesis
    by (simp add: build_results_def find_init_files_broken_and_chain a1 a2
        broken_and_chain_report_def count_reexports_def chain_analysis_def)
       (simp add: broken_and_chain_def run_on_def)
qed

theorem caught_failure_isolated_witness:
  "load (files broken_and_chain) top_init = Inl (SyntaxError ''invalid syntax'') \<and>
   caught (SyntaxError ''invalid syntax'') \<and>
   list_all (survives (files broken_and_chain))
     (find_init_files (files broken_and_chain) (temp_path broken_and_chain)) \<and>
   build_results broken_and_chain = Inr broken_and_chain_report \<and>
   analyze_init_file (files broken_and_chain) top_init =
     Inr \<lparr>file_name = str_path top_init, error = Some ''invalid syntax'',
          langchain_core_imports = [], all_exports = [], exported_from_core = []\<rparr> \<and>
   map error (analyses broken_and_chain_report) = [Some ''invalid syntax'', None] \<and>
   total_langchain_core_reexports (summary broken_and_chain_report) = 1 \<and>
   modules_with_core_reexports (summary broken_and_chain_report) = 1"
proof -
  have c: "caught (SyntaxError ''invalid syntax'')"
    by simp
  have s: "list_all (survives (files broken_and_chain))
     (find_init_files (files broken_and_chain) (temp_path broken_and_chain))"
    using load_chain
    by (simp add: find_init_files_broken_and_chain survives_def load_broken)
       (simp add: broken_and_chain_def run_on_def installed_def)
  show ?thesis
    using load_broken c s build_results_broken_and_chain
      caught_failure_isolated [of broken_and_chain top_init "SyntaxError ''invalid syntax''"
        broken_and_chain_report]
    by (simp add: broken_and_chain_report_def chain_analysis_def)
qed

section \<open>Locating the init files\<close>

lemma find_init_files_subset:
  "set (find_init_files fs package_path) \<subseteq> set (rglob_init fs (package_path @ [''langchain'']))"
  by (auto simp: find_init_files_def Let_def)

lemma find_init_files_not_private:
  "init_file \<in> set (find_init_files fs package_path) \<Longrightarrow>
     \<not> is_private (butlast (relative_to init_file (package_path @ [''langchain''])))"
  by (auto simp: find_init_files_def Let_def split: if_splits)

lemma file_name_analyze:
  "analyze_init_file fs init_file = Inr a \<Longrightarrow> file_name a = str_path init_file"
  by (auto simp: analyze_init_file_def Let_def split: sum.splits if_splits)

lemma file_names_analyze_all:
  "analyze_all fs init_files = Inr as \<Longrightarrow> map file_name as = map str_path init_files"
  by (induction init_files arbitrary: as) (auto simp: file_name_analyze split: sum.splits)

text \<open>
  Claim C8, as stated: an init file below any directory whose name begins with an
  underscore is left out. The test exempts the name \<open>__init__.py\<close>, also when it is the
  name of a directory: the file \<open>langchain/__init__.py/__init__.py\<close> is kept although
  the directory segment \<open>__init__.py\<close> begins with an underscore.
\<close>

theorem init_named_directory_kept:
  "''__init__.py'' \<in> set (butlast (relative_to nested_init [''/'', ''tmp'', ''langchain''])) \<and>
   startswith ''__init__.py'' ''_'' \<and>
   nested_init \<in> set (find_init_files init_named_directory [''/'', ''tmp''])"
  by (simp add: nested_init_def top_init_def relative_to_def startswith_def
      init_named_directory_def installed_def find_init_files_def is_private_def)

text \<open>
  Claim C8, amended. An init file whose path below the package directory has a directory
  segment that begins with an underscore and is not named \<open>__init__.py\<close> is not returned
  by \<open>find_init_files\<close>; the modules of a report are exactly the files returned, in
  that order.
\<close>

theorem private_segment_excluded:
  assumes "part \<in> set (butlast (relative_to init_file (temp_path env @ [''langchain''])))"
    and "startswith part ''_''"
    and "part \<noteq> ''__init__.py''"
  shows "init_file \<notin> set (find_init_files (files env) (temp_path env)) \<and>
         (build_results env = Inr r \<longrightarrow>
            map file_name (analyses r) =
              map str_path (find_init_files (files env) (temp_path env)))"
proof -
  have "is_private (butlast (relative_to init_file (temp_path env @ [''langchain''])))"
    using assms by (auto simp: is_private_def list_ex_iff)
  then have "init_file \<notin> set (find_init_files (files env) (temp_path env))"
    using find_init_files_not_private by blast
  then show ?thesis
    using file_names_analyze_all build_results_analyses by blast
qed

lemma find_init_files_public_and_internal:
  "find_init_files (files public_and_internal) (temp_path public_and_internal) = [top_init]"
  by (simp add: public_and_internal_def run_on_def installed_def find_init_files_def
      top_init_def internal_init_def relative_to_def is_private_def startswith_def)

lemma load_public:
  "load (installed [(top_init, Inr chain_module), (internal_init, Inr chain_module)]) top_init =
     Inr chain_module"
  by (simp add: installed_def)

lemma build_results_public_and_internal:
  "build_results public_and_internal = Inr public_and_internal_report"
proof -
  have a: "analyze_init_file (files public_and_internal) top_init = Inr chain_analysis"
    by (simp add: public_and_internal_def run_on_def analyze_chain_module [OF load_public]
        chain_analysis_def str_path_top_init)
  show ?thesis
    by (simp add: build_results_def find_init_files_public_and_internal a
        public_and_internal_report_def count_reexports_def chain_analysis_def)
       (simp add: public_and_internal_def run_on_def)
qed

theorem private_segment_excluded_witness:
  "''_internal'' \<in> set (butlast (relative_to internal_init
      (temp_path public_and_internal @ [''langchain'']))) \<and>
   startswith ''_internal'' ''_'' \<and>
   ''_internal'' \<noteq> ''__init__.py'' \<and>
   internal_init \<in> set (rglob_init (files public_and_internal) [''/'', ''tmp'', ''langchain'']) \<and>
   internal_init \<notin> set (find_init_files (files public_and_internal)
                           (temp_path public_and_internal)) \<and>
   build_results public_and_internal = Inr public_and_internal_report \<and>
   map file_name (analyses public_and_internal_report) = [''/tmp/langchain/__init__.py'']"
proof -
  have a: "''_internal'' \<in> set (butlast (relative_to internal_init
             (temp_path public_and_internal @ [''langchain''])))"
    by (simp add: public_and_internal_def run_on_def internal_init_def relative_to_def)
  have b: "startswith ''_internal'' ''_''"
    by (simp add: startswith_def)
  have c: "''_internal'' \<noteq> ''__init__.py''"
    by simp
  have d: "internal_init \<in>
      set (rglob_init (files public_and_internal) [''/'', ''tmp'', ''langchain''])"
    by (simp add: public_and_internal_def run_on_def installed_def)
  show ?thesis
    using a b c d build_results_public_and_internal
      private_segment_excluded [OF a b c, of public_and_internal_report]
    by (simp add: find_init_files_public_and_internal str_path_top_init)
qed

section \<open>Exit status\<close>

lemma find_init_files_missing_root:
  "\<not> path_exists fs (package_path @ [''langchain'']) \<Longrightarrow> find_init_files fs package_path = []"
  by (simp add: find_init_files_def)

text \<open>Without the package directory the run still produces a report, an empty one.\<close>

lemma main_missing_root:
  assumes "pip_returncode env = 0"
    and "\<not> path_exists (files env) (temp_path env @ [''langchain''])"
  shows "main env =
           Inr \<lparr>metadata = \<lparr>langchain_version = latest_langchain env,
                            langchain_core_version = latest_langchain_core env,
                            total_init_files = 0\<rparr>,
                analyses = [],
                summary = \<lparr>total_langchain_core_reexports = 0,
                           modules_with_core_reexports = 0\<rparr>\<rparr> \<and>
         exit_status (main env) = 0"
  using assms
  by (simp add: main_def install_packages_def build_results_def
      find_init_files_missing_root json_dump_def exit_status_def)

lemma exit_status_zero_iff: "exit_status (main env) = 0 \<longleftrightarrow> (\<exists>r. main env = Inr r)"
  by (cases "main env") (simp_all add: exit_status_def)

text \<open>A failed installation ends the run before anything is looked for.\<close>

lemma failed_install_exit_status:
  "pip_returncode env \<noteq> 0 \<Longrightarrow> exit_status (main env) = 1"
  by (simp add: main_def install_packages_def exit_status_def)

text \<open>
  Claim C9. The claim: the run exits with a non-zero status only when the package roots
  cannot be located. With the package installed and its directory found, a module
  holding \<^verbatim>\<open>__all__ = [b"x"]\<close> is analysed, the bytes constant is put into
  \<open>all_exports\<close>, and \<open>json.dump\<close> raises \<open>TypeError\<close>: no report, exit status 1.
\<close>

theorem bytes_export_aborts_run:
  "pip_returncode (run_on (installed [(top_init, Inr bytes_module)])) = 0 \<and>
   path_exists (files (run_on (installed [(top_init, Inr bytes_module)])))
     (temp_path (run_on (installed [(top_init, Inr bytes_module)])) @ [''langchain'']) \<and>
   find_init_files (files (run_on (installed [(top_init, Inr bytes_module)])))
     (temp_path (run_on (installed [(top_init, Inr bytes_module)]))) = [top_init] \<and>
   analyze_init_file (installed [(top_init, Inr bytes_module)]) top_init =
     Inr \<lparr>file_name = ''/tmp/langchain/__init__.py'',
          error = None,
          langchain_core_imports = [],
          all_exports = [CBytes ''x''],
          exported_from_core = []\<rparr> \<and>
   main (run_on (installed [(top_init, Inr bytes_module)])) =
     Inl (TypeError ''Object of type bytes is not JSON serializable'') \<and>
   exit_status (main (run_on (installed [(top_init, Inr bytes_module)]))) = 1"
proof -
  let ?env = "run_on (installed [(top_init, Inr bytes_module)])"
  have p: "pip_returncode ?env = 0"
    by (simp add: run_on_def)
  have e: "path_exists (files ?env) (temp_path ?env @ [''langchain''])"
    by (simp add: run_on_def installed_def)
  have f: "find_init_files (files ?env) (temp_path ?env) = [top_init]"
    using top_init_public by (simp add: run_on_def installed_def find_init_files_def)
  have a: "analyze_init_file (installed [(top_init, Inr bytes_module)]) top_init =
     Inr \<lparr>file_name = ''/tmp/langchain/__init__.py'', error = None,
          langchain_core_imports = [], all_exports = [CBytes ''x''],
          exported_from_core = []\<rparr>"
    by (simp add: analyze_installed [OF load_installed_single] bytes_module_def
        visit_Assign_def add_export_def str_path_top_init)
  have a': "analyze_init_file (files ?env) top_init =
     Inr \<lparr>file_name = ''/tmp/langchain/__init__.py'', error = None,
          langchain_core_imports = [], all_exports = [CBytes ''x''],
          exported_from_core = []\<rparr>"
    using a by (simp add: run_on_def)
  have m: "main ?env = Inl (TypeError ''Object of type bytes is not JSON serializable'')"
    by (simp add: main_def install_packages_def p build_results_def f a' json_dump_def Let_def)
  show ?thesis
    using p e f a m by (simp add: exit_status_def)
qed

end
